theory Spec2Isabelle
  imports Complex_Main
begin

text \<open>
  A shallow embedding of the numeric core of \<open>calculator.js\<close>: the constant tables of
  \<open>CONFIG\<close>, the module \<open>RiskModel\<close> (unit conversion, logistic score and probability,
  contributions, elevated factors, what-if delta) and the module \<open>TimelineChart\<close> (the
  bounded snapshot buffer and its rendering).
\<close>

section \<open>JavaScript numbers and objects\<close>

text \<open>
  The calculator computes with JavaScript Numbers. They are modelled as the real numbers
  (exact arithmetic, no rounding and no overflow) together with \<open>NaN\<close>, which is what
  every arithmetic operator of the modelled code yields on an operand that is
  \<open>undefined\<close> (a property the object does not have). \<open>NaN\<close> is absorbing, and every
  comparison with it is false.
\<close>

datatype jsnum = Num real | NaN

instantiation jsnum :: "{plus, minus, times, uminus, inverse}"
begin

fun plus_jsnum :: "jsnum \<Rightarrow> jsnum \<Rightarrow> jsnum" where
  "plus_jsnum (Num a) (Num b) = Num (a + b)"
| "plus_jsnum _ _ = NaN"

fun minus_jsnum :: "jsnum \<Rightarrow> jsnum \<Rightarrow> jsnum" where
  "minus_jsnum (Num a) (Num b) = Num (a - b)"
| "minus_jsnum _ _ = NaN"

fun times_jsnum :: "jsnum \<Rightarrow> jsnum \<Rightarrow> jsnum" where
  "times_jsnum (Num a) (Num b) = Num (a * b)"
| "times_jsnum _ _ = NaN"

fun uminus_jsnum :: "jsnum \<Rightarrow> jsnum" where
  "uminus_jsnum (Num a) = Num (- a)"
| "uminus_jsnum NaN = NaN"

text \<open>The quotient by zero is infinite in JavaScript; the model has no infinities and
  the modelled code never divides by zero, so the model yields \<open>NaN\<close> there.\<close>

fun divide_jsnum :: "jsnum \<Rightarrow> jsnum \<Rightarrow> jsnum" where
  "divide_jsnum (Num a) (Num b) = (if b = 0 then NaN else Num (a / b))"
| "divide_jsnum _ _ = NaN"

fun inverse_jsnum :: "jsnum \<Rightarrow> jsnum" where
  "inverse_jsnum (Num a) = (if a = 0 then NaN else Num (1 / a))"
| "inverse_jsnum NaN = NaN"

instance ..

end

text \<open>\<open>Math.exp\<close>.\<close>

fun js_exp :: "jsnum \<Rightarrow> jsnum" where
  "js_exp (Num a) = Num (exp a)"
| "js_exp NaN = NaN"

text \<open>The relational operators \<open>>=\<close> and \<open><=\<close>.\<close>

fun js_ge :: "jsnum \<Rightarrow> jsnum \<Rightarrow> bool" where
  "js_ge (Num a) (Num b) = (a \<ge> b)"
| "js_ge _ _ = False"

fun js_le :: "jsnum \<Rightarrow> jsnum \<Rightarrow> bool" where
  "js_le (Num a) (Num b) = (a \<le> b)"
| "js_le _ _ = False"

text \<open>An input record is an object: a finite map from property names to numbers.
  Reading a property the object lacks gives \<open>undefined\<close>, which the code only ever uses
  as an operand of arithmetic or of a comparison, where it behaves as \<open>NaN\<close>. The
  properties every object inherits from \<open>Object.prototype\<close> (\<open>constructor\<close>,
  \<open>toString\<close> and the like) are not modelled.\<close>

type_synonym obj = "string \<rightharpoonup> jsnum"

definition get :: "obj \<Rightarrow> string \<Rightarrow> jsnum" where
  "get ob k = (case ob k of Some v \<Rightarrow> v | None \<Rightarrow> NaN)"

section \<open>CONFIG\<close>

text \<open>Logistic-regression betas; \<open>sigma\<close> is the intercept.\<close>

definition BETAS :: obj where
  "BETAS =
     [''age''        \<mapsto> Num 0.0173,
      ''race''       \<mapsto> Num 0.4433,
      ''parentHist'' \<mapsto> Num 0.4981,
      ''sbp''        \<mapsto> Num 0.0111,
      ''waist''      \<mapsto> Num 0.0273,
      ''height''     \<mapsto> Num (- 0.0326),
      ''fastGlu''    \<mapsto> Num 1.5849,
      ''cholHDL''    \<mapsto> Num (- 0.4718),
      ''cholTri''    \<mapsto> Num 0.242,
      ''sigma''      \<mapsto> Num (- 9.9808)]"

text \<open>Population means.\<close>

definition MEANS :: obj where
  "MEANS =
     [''age''        \<mapsto> Num 54,
      ''race''       \<mapsto> Num 0.25,
      ''parentHist'' \<mapsto> Num 0.3,
      ''sbp''        \<mapsto> Num 120,
      ''waist''      \<mapsto> Num 97,
      ''height''     \<mapsto> Num 168,
      ''fastGlu''    \<mapsto> Num 5.5,
      ''cholHDL''    \<mapsto> Num 1.3,
      ''cholTri''    \<mapsto> Num 1.7]"

text \<open>Conversion factors US to SI.\<close>

definition CONVERSIONS :: obj where
  "CONVERSIONS =
     [''heightToCm'' \<mapsto> Num 2.54,
      ''waistToCm''  \<mapsto> Num 2.54,
      ''gluToMmol''  \<mapsto> Num 1 / Num 18,
      ''hdlToMmol''  \<mapsto> Num 1 / Num 38.67,
      ''triToMmol''  \<mapsto> Num 1 / Num 88.57]"

text \<open>Slider min / max / step per field and unit system.\<close>

definition RANGES :: "string \<rightharpoonup> (string \<rightharpoonup> jsnum list)" where
  "RANGES = map_of
    [(''age'',     map_of [(''us'', [Num 20, Num 80, Num 1]),  (''si'', [Num 20, Num 80, Num 1])]),
     (''sbp'',     map_of [(''us'', [Num 80, Num 220, Num 1]), (''si'', [Num 80, Num 220, Num 1])]),
     (''height'',  map_of [(''us'', [Num 48, Num 84, Num 1]),  (''si'', [Num 122, Num 213, Num 1])]),
     (''waist'',   map_of [(''us'', [Num 25, Num 60, Num 1]),  (''si'', [Num 64, Num 152, Num 1])]),
     (''fastGlu'', map_of [(''us'', [Num 50, Num 300, Num 1]), (''si'', [Num 2.8, Num 16.7, Num 0.1])]),
     (''cholHDL'', map_of [(''us'', [Num 20, Num 100, Num 1]), (''si'', [Num 0.5, Num 2.6, Num 0.1])]),
     (''cholTri'', map_of [(''us'', [Num 50, Num 500, Num 1]), (''si'', [Num 0.6, Num 5.6, Num 0.1])])]"

record level =
  elevated :: jsnum
  high :: jsnum

record low_level =
  low :: jsnum
  veryLow :: jsnum

record thresholds =
  fastGlu :: level
  sbp :: level
  cholHDL :: low_level
  cholTri :: level
  waist :: level

text \<open>Clinical decision thresholds (all in SI units).\<close>

definition THRESHOLDS :: thresholds where
  "THRESHOLDS = \<lparr>
     fastGlu = \<lparr> elevated = Num 5.6, high = Num 7.0 \<rparr>,
     sbp     = \<lparr> elevated = Num 130, high = Num 160 \<rparr>,
     cholHDL = \<lparr> low = Num 1.0, veryLow = Num 0.8 \<rparr>,
     cholTri = \<lparr> elevated = Num 1.7, high = Num 2.3 \<rparr>,
     waist   = \<lparr> elevated = Num 94, high = Num 102 \<rparr> \<rparr>"

section \<open>RiskModel\<close>

definition toSI :: "obj \<Rightarrow> bool \<Rightarrow> obj" where
  "toSI inputs isMetric =
     (if isMetric then inputs
      else (let c = CONVERSIONS in
        inputs(''height''  \<mapsto> get inputs ''height''  * get c ''heightToCm'',
               ''waist''   \<mapsto> get inputs ''waist''   * get c ''waistToCm'',
               ''fastGlu'' \<mapsto> get inputs ''fastGlu'' * get c ''gluToMmol'',
               ''cholHDL'' \<mapsto> get inputs ''cholHDL'' * get c ''hdlToMmol'',
               ''cholTri'' \<mapsto> get inputs ''cholTri'' * get c ''triToMmol'')))"

text \<open>The local constant \<open>score\<close> of \<open>computeProbability\<close>.\<close>

definition score :: "obj \<Rightarrow> jsnum" where
  "score siVals = (let B = BETAS in
     get B ''sigma'' +
     get B ''age''        * get siVals ''age'' +
     get B ''race''       * get siVals ''race'' +
     get B ''parentHist'' * get siVals ''parentHist'' +
     get B ''sbp''        * get siVals ''sbp'' +
     get B ''waist''      * get siVals ''waist'' +
     get B ''height''     * get siVals ''height'' +
     get B ''fastGlu''    * get siVals ''fastGlu'' +
     get B ''cholHDL''    * get siVals ''cholHDL'' +
     get B ''cholTri''    * get siVals ''cholTri'')"

definition computeProbability :: "obj \<Rightarrow> jsnum" where
  "computeProbability siVals = Num 1 / (Num 1 + js_exp (- score siVals))"

definition computeContributions :: "obj \<Rightarrow> obj" where
  "computeContributions siVals = (let B = BETAS; M = MEANS in
     [''age''        \<mapsto> get B ''age''        * (get siVals ''age''        - get M ''age''),
      ''race''       \<mapsto> get B ''race''       * (get siVals ''race''       - get M ''race''),
      ''parentHist'' \<mapsto> get B ''parentHist'' * (get siVals ''parentHist'' - get M ''parentHist''),
      ''sbp''        \<mapsto> get B ''sbp''        * (get siVals ''sbp''        - get M ''sbp''),
      ''waist''      \<mapsto> get B ''waist''      * (get siVals ''waist''      - get M ''waist''),
      ''height''     \<mapsto> get B ''height''     * (get siVals ''height''     - get M ''height''),
      ''fastGlu''    \<mapsto> get B ''fastGlu''    * (get siVals ''fastGlu''    - get M ''fastGlu''),
      ''cholHDL''    \<mapsto> get B ''cholHDL''    * (get siVals ''cholHDL''    - get M ''cholHDL''),
      ''cholTri''    \<mapsto> get B ''cholTri''    * (get siVals ''cholTri''    - get M ''cholTri'')])"

record treatment_status =
  elevatedFactors :: "string list"
  waistIsHigh :: bool

text \<open>\<open>elevatedFactors.push\<close> appends at the end of the array.\<close>

definition getElevatedFactors :: "obj \<Rightarrow> obj \<Rightarrow> bool \<Rightarrow> treatment_status" where
  "getElevatedFactors siVals rawInputs isMetric = (let
     T = THRESHOLDS;
     ef0 = [];
     ef1 = (if js_ge (get siVals ''fastGlu'') (elevated (fastGlu T))
            then ef0 @ [''fastGlu''] else ef0);
     ef2 = (if js_ge (get siVals ''sbp'') (elevated (sbp T))
            then ef1 @ [''sbp''] else ef1);
     ef3 = (if js_le (get siVals ''cholHDL'') (low (cholHDL T))
            then ef2 @ [''cholHDL''] else ef2);
     triElevated = (if isMetric
            then js_ge (get siVals ''cholTri'') (elevated (cholTri T))
            else js_ge (get rawInputs ''cholTri'') (Num 150));
     ef4 = (if triElevated then ef3 @ [''cholTri''] else ef3);
     ef5 = (if js_ge (get siVals ''waist'') (elevated (waist T))
            then ef4 @ [''waist''] else ef4)
   in \<lparr> elevatedFactors = ef5,
        waistIsHigh = js_ge (get siVals ''waist'') (high (waist T)) \<rparr>)"

subsection \<open>The what-if delta, over a store of objects\<close>

text \<open>
  \<open>computeWhatIfDelta\<close> is the one function of the model that assigns to a property. It
  receives a reference to the raw record, so objects live in a store: a reference is an
  address, \<open>{ ...rawInputs }\<close> allocates a fresh object holding the same properties, and
  \<open>alteredInputs[field] = v\<close> writes into the object at that address. \<open>toSI\<close> and
  \<open>computeProbability\<close> only read their argument, so they are applied to its value.
\<close>

record store =
  cells :: "nat \<rightharpoonup> obj"
  next_ref :: nat

definition deref :: "store \<Rightarrow> nat \<Rightarrow> obj" where
  "deref st a = the (cells st a)"

definition alloc :: "obj \<Rightarrow> store \<Rightarrow> nat \<times> store" where
  "alloc ob st =
     (next_ref st, st\<lparr> cells := (cells st)(next_ref st \<mapsto> ob), next_ref := Suc (next_ref st) \<rparr>)"

definition assign :: "store \<Rightarrow> nat \<Rightarrow> string \<Rightarrow> jsnum \<Rightarrow> store" where
  "assign st a k v = st\<lparr> cells := (cells st)(a \<mapsto> (deref st a)(k \<mapsto> v)) \<rparr>"

text \<open>\<open>CONFIG.RANGES[field]?.[mode]?.[2] ?? 1\<close>: each missing link of the chain gives
  \<open>undefined\<close>, which \<open>??\<close> replaces by 1.\<close>

definition computeWhatIfDelta ::
    "store \<Rightarrow> nat \<Rightarrow> bool \<Rightarrow> string \<Rightarrow> jsnum \<Rightarrow> jsnum \<times> store" where
  "computeWhatIfDelta st rawInputs isMetric field direction = (let
     baseProb = computeProbability (toSI (deref st rawInputs) isMetric);
     mode = (if isMetric then ''si'' else ''us'');
     step = (case RANGES field of
               None \<Rightarrow> Num 1
             | Some byMode \<Rightarrow>
                 (case byMode mode of
                    None \<Rightarrow> Num 1
                  | Some rng \<Rightarrow> (if 2 < length rng then rng ! 2 else Num 1)));
     (alteredInputs, st1) = alloc (deref st rawInputs) st;
     st2 = assign st1 alteredInputs field
             (get (deref st1 rawInputs) field + direction * step * Num 5);
     altProb = computeProbability (toSI (deref st2 alteredInputs) isMetric)
   in ((altProb - baseProb) * Num 100, st2))"

section \<open>TimelineChart\<close>

record snapshot =
  timestamp :: nat
  riskPct :: jsnum
  siVals :: obj

definition MAX_SNAPSHOTS :: nat where
  "MAX_SNAPSHOTS = 20"

text \<open>The module's state is the array \<open>snapshots\<close>, initially empty. \<open>addSnapshot\<close>
  reads the clock (\<open>new Date()\<close>, the argument \<open>now\<close>), removes the first entry when the
  array is full (\<open>shift\<close>), appends the new one (\<open>push\<close>) and then calls \<open>render\<close>, which
  only reads the array.\<close>

definition addSnapshot :: "nat \<Rightarrow> jsnum \<Rightarrow> obj \<Rightarrow> snapshot list \<Rightarrow> snapshot list" where
  "addSnapshot now riskPct' siVals' snapshots = (let
     shifted = (if length snapshots \<ge> MAX_SNAPSHOTS then tl snapshots else snapshots)
   in shifted @ [\<lparr> timestamp = now, riskPct = riskPct', siVals = siVals' \<rparr>])"

text \<open>\<open>snapshots.length = 0\<close>.\<close>

definition clear :: "snapshot list \<Rightarrow> snapshot list" where
  "clear snapshots = take 0 snapshots"

text \<open>The operations the module exports that change the array, and a run of them from
  the initial state.\<close>

datatype timeline_op = AddSnapshot nat jsnum obj | Clear

fun timeline_step :: "snapshot list \<Rightarrow> timeline_op \<Rightarrow> snapshot list" where
  "timeline_step snapshots (AddSnapshot now r v) = addSnapshot now r v snapshots"
| "timeline_step snapshots Clear = clear snapshots"

definition timeline_run :: "timeline_op list \<Rightarrow> snapshot list" where
  "timeline_run ops = foldl timeline_step [] ops"

subsection \<open>Rendering\<close>

text \<open>The markup that \<open>render\<close> assigns to the container, as a tree instead of a string:
  coordinates stay numbers, a path is its list of commands, the text of an index label is
  the index, and the title of a dot is its index and risk (\<open>toFixed\<close> is not
  modelled).\<close>

datatype path_cmd = MoveTo jsnum jsnum | LineTo jsnum jsnum | ClosePath

datatype content = Words string | Index nat

datatype svg_elem =
    Line jsnum jsnum jsnum jsnum string
  | Text jsnum jsnum string "string option" content
  | Path "path_cmd list" string
  | Circle jsnum jsnum jsnum string nat jsnum

datatype html =
    Paragraph string string
  | Svg jsnum jsnum "svg_elem list"

text \<open>\<open>a || b\<close> on numbers: \<open>b\<close> when \<open>a\<close> is 0 or \<open>NaN\<close>.\<close>

fun js_or :: "jsnum \<Rightarrow> jsnum \<Rightarrow> jsnum" where
  "js_or (Num a) b = (if a = 0 then b else Num a)"
| "js_or NaN b = b"

text \<open>\<open>Math.max(x, ...xs)\<close>: \<open>NaN\<close> as soon as one argument is.\<close>

fun js_max2 :: "jsnum \<Rightarrow> jsnum \<Rightarrow> jsnum" where
  "js_max2 (Num a) (Num b) = Num (max a b)"
| "js_max2 _ _ = NaN"

definition Math_max :: "jsnum \<Rightarrow> jsnum list \<Rightarrow> jsnum" where
  "Math_max x xs = foldl js_max2 x xs"

text \<open>The constants and local functions of \<open>render\<close>. \<open>W\<close> depends on the container's
  \<open>offsetWidth\<close>, an integer.\<close>

definition W :: "int \<Rightarrow> jsnum" where
  "W offsetWidth = js_or (Num (of_int offsetWidth) - Num 48) (Num 250)"

definition H :: jsnum where
  "H = Num 80"

record padding =
  top_pad :: jsnum
  right_pad :: jsnum
  bottom_pad :: jsnum
  left_pad :: jsnum

definition PAD :: padding where
  "PAD = \<lparr> top_pad = Num 10, right_pad = Num 12, bottom_pad = Num 16, left_pad = Num 12 \<rparr>"

definition plotW :: "int \<Rightarrow> jsnum" where
  "plotW offsetWidth = W offsetWidth - left_pad PAD - right_pad PAD"

definition plotH :: jsnum where
  "plotH = H - top_pad PAD - bottom_pad PAD"

definition maxY :: "snapshot list \<Rightarrow> jsnum" where
  "maxY snapshots = Math_max (Num 50) (map riskPct snapshots)"

definition xScale :: "int \<Rightarrow> snapshot list \<Rightarrow> nat \<Rightarrow> jsnum" where
  "xScale offsetWidth snapshots i =
     left_pad PAD + (if length snapshots = 1 then plotW offsetWidth / Num 2
                 else (Num (real i) / Num (real (length snapshots - 1))) * plotW offsetWidth)"

definition yScale :: "snapshot list \<Rightarrow> jsnum \<Rightarrow> jsnum" where
  "yScale snapshots v = top_pad PAD + plotH - (v / maxY snapshots) * plotH"

text \<open>The body of the last \<open>forEach\<close>: the dot of snapshot \<open>i\<close> and, for the first, the
  last and every fifth snapshot, its index label.\<close>

definition dot :: "int \<Rightarrow> snapshot list \<Rightarrow> nat \<times> snapshot \<Rightarrow> svg_elem list" where
  "dot offsetWidth snapshots = (\<lambda>(i, s). (let
     cx = xScale offsetWidth snapshots i;
     cy = yScale snapshots (riskPct s)
   in Circle cx cy (Num 4) ''timeline-dot'' (i + 1) (riskPct s) #
      (if i = 0 \<or> i = length snapshots - 1 \<or> i mod 5 = 0
       then [Text cx (H - Num 2) ''timeline-label'' (Some ''middle'') (Index (i + 1))]
       else [])))"

text \<open>The argument \<open>container\<close> is the \<open>offsetWidth\<close> of the element
  \<open>timeline-chart\<close>, or \<open>None\<close> when the document has no such element; the result is the
  new content of the container, or \<open>None\<close> when \<open>render\<close> leaves the document as it
  is.\<close>

definition render :: "int option \<Rightarrow> snapshot list \<Rightarrow> html option" where
  "render container snapshots =
    (case container of
       None \<Rightarrow> None
     | Some offsetWidth \<Rightarrow>
        if length snapshots = 0
        then Some (Paragraph ''timeline-empty''
               (''No snapshots yet. Click '' @ [CHR 0x22] @ ''Save Snapshot'' @ [CHR 0x22]
                  @ '' to track changes over time.''))
        else (let
          x = xScale offsetWidth snapshots;
          y = yScale snapshots;
          threshY = y (Num 10);
          threshold =
            [Line (left_pad PAD) threshY (W offsetWidth - right_pad PAD) threshY ''timeline-threshold'',
             Text (W offsetWidth - right_pad PAD + Num 2) (threshY + Num 3) ''timeline-label'' None
               (Words ''10%'')];
          points = map (\<lambda>(i, s). LineTo (x i) (y (riskPct s))) (enumerate 0 snapshots);
          area = (if length snapshots > 1
            then [Path ([MoveTo (x 0) (y (riskPct (snapshots ! 0)))] @ points @
                        [LineTo (x (length snapshots - 1)) (y (Num 0)),
                         LineTo (x 0) (y (Num 0)), ClosePath]) ''timeline-area'']
            else []);
          line = (if length snapshots > 1
            then [Path ([MoveTo (x 0) (y (riskPct (snapshots ! 0)))] @ points) ''timeline-line'']
            else []);
          dots = concat (map (dot offsetWidth snapshots) (enumerate 0 snapshots))
        in Some (Svg (W offsetWidth) H (threshold @ area @ line @ dots))))"

section \<open>Notions the properties are stated with\<close>

text \<open>The nine weighted fields, in the order of the object literals.\<close>

definition FIELDS :: "string list" where
  "FIELDS = [''age'', ''race'', ''parentHist'', ''sbp'', ''waist'', ''height'',
             ''fastGlu'', ''cholHDL'', ''cholTri'']"

text \<open>A complete numeric record: each of the nine fields is present and is a number.\<close>

definition numeric :: "obj \<Rightarrow> bool" where
  "numeric ob = list_all (\<lambda>k. get ob k \<noteq> NaN) FIELDS"

text \<open>The sum of the nine entries of a contribution vector, added from 0 in the order
  of the fields (as \<open>Object.values(contributions).reduce\<close> adds them).\<close>

definition sum_contributions :: "obj \<Rightarrow> jsnum" where
  "sum_contributions c = foldl (\<lambda>sum k. sum + get c k) (Num 0) FIELDS"

text \<open>Two numbers agree within a tolerance; \<open>NaN\<close> agrees with nothing.\<close>

fun within_tolerance :: "real \<Rightarrow> jsnum \<Rightarrow> jsnum \<Rightarrow> bool" where
  "within_tolerance eps (Num a) (Num b) = (\<bar>a - b\<bar> \<le> eps)"
| "within_tolerance eps _ _ = False"

text \<open>The snapshot that \<open>addSnapshot\<close> stores for a time, a risk and a value record.\<close>

definition snap :: "nat \<times> jsnum \<times> obj \<Rightarrow> snapshot" where
  "snap = (\<lambda>(now, r, v). \<lparr> timestamp = now, riskPct = r, siVals = v \<rparr>)"

text \<open>The dots among the elements of a rendering.\<close>

fun is_circle :: "svg_elem \<Rightarrow> bool" where
  "is_circle (Circle cx cy r c i v) = True"
| "is_circle _ = False"

text \<open>Every stored risk percentage is a number and is not negative.\<close>

definition risks_ok :: "snapshot list \<Rightarrow> bool" where
  "risks_ok snapshots = list_all (\<lambda>s. js_ge (riskPct s) (Num 0)) snapshots"

section \<open>Basic facts\<close>

lemma get_upd [simp]: "get (ob(k \<mapsto> v)) k' = (if k' = k then v else get ob k')"
  by (simp add: get_def)

lemma get_empty [simp]: "get Map.empty k = NaN"
  by (simp add: get_def)

lemma times_Num_1 [simp]: "x * Num 1 = x"
  by (cases x) simp_all

lemma not_NaN: "(x \<noteq> NaN) = (\<exists>a. x = Num a)"
  by (cases x) simp_all

lemma js_ge_Num: "js_ge x (Num a) = (\<exists>v. x = Num v \<and> a \<le> v)"
  by (cases x) auto

lemma conv_vals:
  "get CONVERSIONS ''heightToCm'' = Num 2.54"
  "get CONVERSIONS ''waistToCm'' = Num 2.54"
  "get CONVERSIONS ''gluToMmol'' = Num (1 / 18)"
  "get CONVERSIONS ''hdlToMmol'' = Num (1 / 38.67)"
  "get CONVERSIONS ''triToMmol'' = Num (1 / 88.57)"
  by (simp_all add: CONVERSIONS_def)

lemma th_vals:
  "elevated (fastGlu THRESHOLDS) = Num 5.6"
  "elevated (sbp THRESHOLDS) = Num 130"
  "low (cholHDL THRESHOLDS) = Num 1"
  "elevated (cholTri THRESHOLDS) = Num 1.7"
  "elevated (waist THRESHOLDS) = Num 94"
  "high (waist THRESHOLDS) = Num 102"
  by (simp_all add: THRESHOLDS_def)

lemma logistic_Num: "Num 1 / (Num 1 + js_exp (- Num s)) = Num (1 / (1 + exp (- s)))"
proof -
  have "1 + exp (- s) > 0" by (simp add: add_pos_pos)
  then show ?thesis by simp
qed

section \<open>Unit conversion\<close>

text \<open>
  C4. For every input record, \<open>toSI\<close> in metric mode returns a record with the same
  properties and values. In US mode it returns the record with height and waist
  multiplied by 2.54, fasting glucose by 1/18, HDL by 1/38.67 and triglycerides by
  1/88.57, while age, blood pressure, race and parental history are as in the input.
  The function has no failing branch: it is defined for every record, also one that
  lacks a field (the converted field is then \<open>NaN\<close>).
\<close>

theorem toSI_conversion:
  "toSI inputs True = inputs \<and>
   toSI inputs False =
     inputs(''height''  \<mapsto> get inputs ''height''  * Num 2.54,
            ''waist''   \<mapsto> get inputs ''waist''   * Num 2.54,
            ''fastGlu'' \<mapsto> get inputs ''fastGlu'' * Num (1 / 18),
            ''cholHDL'' \<mapsto> get inputs ''cholHDL'' * Num (1 / 38.67),
            ''cholTri'' \<mapsto> get inputs ''cholTri'' * Num (1 / 88.57)) \<and>
   toSI inputs False ''age'' = inputs ''age'' \<and>
   toSI inputs False ''sbp'' = inputs ''sbp'' \<and>
   toSI inputs False ''race'' = inputs ''race'' \<and>
   toSI inputs False ''parentHist'' = inputs ''parentHist''"
  by (simp add: toSI_def Let_def conv_vals)

section \<open>Score, probability and contributions\<close>

lemma score_numeric:
  assumes "get s ''age'' = Num a" "get s ''race'' = Num r" "get s ''parentHist'' = Num p"
    "get s ''sbp'' = Num b" "get s ''waist'' = Num w" "get s ''height'' = Num h"
    "get s ''fastGlu'' = Num g" "get s ''cholHDL'' = Num c" "get s ''cholTri'' = Num t"
  shows "score s = Num (- 9.9808 + 0.0173 * a + 0.4433 * r + 0.4981 * p + 0.0111 * b
            + 0.0273 * w + - 0.0326 * h + 1.5849 * g + - 0.4718 * c + 0.242 * t)"
  using assms by (simp add: score_def Let_def BETAS_def)

lemma sum_contributions_numeric:
  assumes "get s ''age'' = Num a" "get s ''race'' = Num r" "get s ''parentHist'' = Num p"
    "get s ''sbp'' = Num b" "get s ''waist'' = Num w" "get s ''height'' = Num h"
    "get s ''fastGlu'' = Num g" "get s ''cholHDL'' = Num c" "get s ''cholTri'' = Num t"
  shows "sum_contributions (computeContributions s) =
     Num (0 + 0.0173 * (a - 54) + 0.4433 * (r - 0.25) + 0.4981 * (p - 0.3) + 0.0111 * (b - 120)
            + 0.0273 * (w - 97) + - 0.0326 * (h - 168) + 1.5849 * (g - 5.5)
            + - 0.4718 * (c - 1.3) + 0.242 * (t - 1.7))"
  using assms
  by (simp add: sum_contributions_def FIELDS_def computeContributions_def Let_def
      BETAS_def MEANS_def)

lemma score_MEANS: "score MEANS = Num (- 1.768035)"
  by (simp add: score_def Let_def BETAS_def MEANS_def)

lemma computeProbability_MEANS: "computeProbability MEANS = Num (1 / (1 + exp 1.768035))"
  by (simp only: computeProbability_def score_MEANS logistic_Num) simp

text \<open>In exact arithmetic the probability of a complete numeric record is the logistic
  function of its score and lies strictly between 0 and 1. (Numbers are reals here, so
  this says nothing about the rounding of \<open>1 + Math.exp(-score)\<close> in floating point.)\<close>

lemma computeProbability_numeric:
  assumes "numeric vals"
  shows "\<exists>x. score vals = Num x \<and> computeProbability vals = Num (1 / (1 + exp (- x))) \<and>
     0 < 1 / (1 + exp (- x)) \<and> 1 / (1 + exp (- x)) < 1"
proof -
  from assms obtain a r p b w h g c t where v:
    "get vals ''age'' = Num a" "get vals ''race'' = Num r"
    "get vals ''parentHist'' = Num p" "get vals ''sbp'' = Num b"
    "get vals ''waist'' = Num w" "get vals ''height'' = Num h"
    "get vals ''fastGlu'' = Num g" "get vals ''cholHDL'' = Num c"
    "get vals ''cholTri'' = Num t"
    by (auto simp: numeric_def FIELDS_def not_NaN)
  from score_numeric [OF v] obtain x where x: "score vals = Num x" by blast
  have e: "0 < exp (- x)" by simp
  then have "0 < 1 / (1 + exp (- x))" "1 / (1 + exp (- x)) < 1"
    by (simp_all add: add_pos_pos)
  moreover have "computeProbability vals = Num (1 / (1 + exp (- x)))"
    by (simp only: computeProbability_def x logistic_Num)
  ultimately show ?thesis using x by blast
qed

text \<open>
  C1, as the specification states it, fails. At the population mean record the nine
  contributions add up to 0, while the score minus the intercept is 8.212765: the two
  differ by far more than the tolerance 1e-9.
\<close>

theorem contributions_sum_not_score_minus_intercept:
  "\<not> within_tolerance (1 / 10 ^ 9)
      (sum_contributions (computeContributions MEANS))
      (score MEANS - get BETAS ''sigma'')"
  by (simp add: sum_contributions_def FIELDS_def computeContributions_def Let_def
      BETAS_def MEANS_def score_def)

text \<open>
  C1, amended. For every complete numeric SI record, the sum over all nine fields of the
  contributions returned by \<open>computeContributions\<close> equals the score of the record minus
  the score of the population mean record; that is, score minus intercept minus the
  constant 8.212765, the sum of weight times population mean over the nine fields. The
  contributions decompose the score around the score at the population mean, not around
  the intercept. The equality is exact in real arithmetic.
\<close>

theorem contributions_sum_around_mean_score:
  assumes "numeric vals"
  shows "sum_contributions (computeContributions vals) = score vals - score MEANS \<and>
         sum_contributions (computeContributions vals)
           = score vals - get BETAS ''sigma'' - Num 8.212765 \<and>
         score vals \<noteq> NaN"
proof -
  from assms obtain a r p b w h g c t where v:
    "get vals ''age'' = Num a" "get vals ''race'' = Num r"
    "get vals ''parentHist'' = Num p" "get vals ''sbp'' = Num b"
    "get vals ''waist'' = Num w" "get vals ''height'' = Num h"
    "get vals ''fastGlu'' = Num g" "get vals ''cholHDL'' = Num c"
    "get vals ''cholTri'' = Num t"
    by (auto simp: numeric_def FIELDS_def not_NaN)
  have sig: "get BETAS ''sigma'' = Num (- 9.9808)"
    by (simp add: BETAS_def)
  show ?thesis
    unfolding score_numeric [OF v] sum_contributions_numeric [OF v] score_MEANS sig
    by (simp add: field_simps)
qed

text \<open>The amended C1 at the default patient of the calculator, in SI units: age 50, blood
  pressure 120, height 168 cm, waist 91 cm, glucose 5.3, HDL 1.3, triglycerides 1.7.\<close>

theorem contributions_sum_around_mean_score_witness:
  "numeric [''age'' \<mapsto> Num 50, ''race'' \<mapsto> Num 0, ''parentHist'' \<mapsto> Num 0,
            ''sbp'' \<mapsto> Num 120, ''height'' \<mapsto> Num 168, ''waist'' \<mapsto> Num 91,
            ''fastGlu'' \<mapsto> Num 5.3, ''cholHDL'' \<mapsto> Num 1.3, ''cholTri'' \<mapsto> Num 1.7] \<and>
   sum_contributions (computeContributions
           [''age'' \<mapsto> Num 50, ''race'' \<mapsto> Num 0, ''parentHist'' \<mapsto> Num 0,
            ''sbp'' \<mapsto> Num 120, ''height'' \<mapsto> Num 168, ''waist'' \<mapsto> Num 91,
            ''fastGlu'' \<mapsto> Num 5.3, ''cholHDL'' \<mapsto> Num 1.3, ''cholTri'' \<mapsto> Num 1.7])
     = Num (- 0.810235) \<and>
   score [''age'' \<mapsto> Num 50, ''race'' \<mapsto> Num 0, ''parentHist'' \<mapsto> Num 0,
            ''sbp'' \<mapsto> Num 120, ''height'' \<mapsto> Num 168, ''waist'' \<mapsto> Num 91,
            ''fastGlu'' \<mapsto> Num 5.3, ''cholHDL'' \<mapsto> Num 1.3, ''cholTri'' \<mapsto> Num 1.7]
     = Num (- 2.57827)"
proof -
  let ?p = "[''age'' \<mapsto> Num 50, ''race'' \<mapsto> Num 0, ''parentHist'' \<mapsto> Num 0,
            ''sbp'' \<mapsto> Num 120, ''height'' \<mapsto> Num 168, ''waist'' \<mapsto> Num 91,
            ''fastGlu'' \<mapsto> Num 5.3, ''cholHDL'' \<mapsto> Num 1.3, ''cholTri'' \<mapsto> Num 1.7]"
  have n: "numeric ?p" by (simp add: numeric_def FIELDS_def)
  have s: "score ?p = Num (- 2.57827)"
    by (simp add: score_def Let_def BETAS_def)
  from contributions_sum_around_mean_score [OF n]
  have "sum_contributions (computeContributions ?p) = score ?p - score MEANS" by blast
  then have "sum_contributions (computeContributions ?p) = Num (- 0.810235)"
    by (simp only: s score_MEANS) simp
  with n s show ?thesis by simp
qed

text \<open>
  C2, as the specification states it, fails in its second half. At the population mean
  record the score is not the intercept -9.9808 and the probability is not
  1/(1+e^9.9808).
\<close>

theorem population_mean_probability_not_intercept:
  "computeProbability MEANS \<noteq> Num (1 / (1 + exp 9.9808)) \<and>
   score MEANS \<noteq> get BETAS ''sigma''"
  by (simp add: computeProbability_MEANS score_MEANS BETAS_def)

text \<open>
  C2, amended. When the SI input record is the population mean vector \<open>CONFIG.MEANS\<close>,
  every entry of \<open>computeContributions\<close> is exactly 0, the score is the intercept plus
  the sum of weight times mean, -9.9808 + 8.212765 = -1.768035, and
  \<open>computeProbability\<close> returns 1/(1+e^1.768035).
\<close>

theorem population_mean_point:
  "computeContributions MEANS =
     [''age'' \<mapsto> Num 0, ''race'' \<mapsto> Num 0, ''parentHist'' \<mapsto> Num 0,
      ''sbp'' \<mapsto> Num 0, ''waist'' \<mapsto> Num 0, ''height'' \<mapsto> Num 0,
      ''fastGlu'' \<mapsto> Num 0, ''cholHDL'' \<mapsto> Num 0, ''cholTri'' \<mapsto> Num 0] \<and>
   score MEANS = Num (- 9.9808 + 8.212765) \<and>
   score MEANS = Num (- 1.768035) \<and>
   computeProbability MEANS = Num (1 / (1 + exp 1.768035))"
proof (intro conjI)
  show "computeContributions MEANS =
     [''age'' \<mapsto> Num 0, ''race'' \<mapsto> Num 0, ''parentHist'' \<mapsto> Num 0,
      ''sbp'' \<mapsto> Num 0, ''waist'' \<mapsto> Num 0, ''height'' \<mapsto> Num 0,
      ''fastGlu'' \<mapsto> Num 0, ''cholHDL'' \<mapsto> Num 0, ''cholTri'' \<mapsto> Num 0]"
    by (simp add: computeContributions_def Let_def BETAS_def MEANS_def)
  show "score MEANS = Num (- 1.768035)" by (rule score_MEANS)
  then show "score MEANS = Num (- 9.9808 + 8.212765)" by simp
  show "computeProbability MEANS = Num (1 / (1 + exp 1.768035))"
    by (rule computeProbability_MEANS)
qed

section \<open>Elevated factors\<close>

text \<open>
  C6. For every SI record (and whatever the raw record and the unit mode),
  \<open>getElevatedFactors\<close> puts \<open>fastGlu\<close> in the elevated list exactly when SI glucose is
  at least 5.6, \<open>sbp\<close> exactly when blood pressure is at least 130, \<open>cholHDL\<close> exactly
  when SI HDL is at most 1.0 and \<open>waist\<close> exactly when SI waist is at least 94; and
  \<open>waistIsHigh\<close> is true exactly when SI waist is at least 102.
\<close>

theorem elevated_factor_thresholds:
  "(''fastGlu'' \<in> set (elevatedFactors (getElevatedFactors vals rawInputs isMetric)))
     = js_ge (get vals ''fastGlu'') (Num 5.6) \<and>
   (''sbp'' \<in> set (elevatedFactors (getElevatedFactors vals rawInputs isMetric)))
     = js_ge (get vals ''sbp'') (Num 130) \<and>
   (''cholHDL'' \<in> set (elevatedFactors (getElevatedFactors vals rawInputs isMetric)))
     = js_le (get vals ''cholHDL'') (Num 1.0) \<and>
   (''waist'' \<in> set (elevatedFactors (getElevatedFactors vals rawInputs isMetric)))
     = js_ge (get vals ''waist'') (Num 94) \<and>
   waistIsHigh (getElevatedFactors vals rawInputs isMetric)
     = js_ge (get vals ''waist'') (Num 102)"
  by (simp add: getElevatedFactors_def Let_def th_vals)

text \<open>
  C5. The triglyceride flag depends on the unit mode: in metric mode \<open>cholTri\<close> is in the
  elevated list exactly when the SI value is at least 1.7; in US mode exactly when the
  raw, unconverted value is at least 150. In particular a raw US value of exactly 150
  is flagged in US mode, while its SI conversion 150/88.57 (below 1.7), presented in
  metric mode, is not.
\<close>

theorem triglyceride_flag_unit_mode:
  "(''cholTri'' \<in> set (elevatedFactors (getElevatedFactors vals rawInputs True)))
     = js_ge (get vals ''cholTri'') (Num 1.7) \<and>
   (''cholTri'' \<in> set (elevatedFactors (getElevatedFactors vals rawInputs False)))
     = js_ge (get rawInputs ''cholTri'') (Num 150) \<and>
   ''cholTri'' \<in> set (elevatedFactors (getElevatedFactors
       (toSI (r(''cholTri'' \<mapsto> Num 150)) False) (r(''cholTri'' \<mapsto> Num 150)) False)) \<and>
   get (toSI (r(''cholTri'' \<mapsto> Num 150)) False) ''cholTri'' = Num (150 / 88.57) \<and>
   ''cholTri'' \<notin> set (elevatedFactors (getElevatedFactors
       (toSI (r(''cholTri'' \<mapsto> Num 150)) False)
       (toSI (r(''cholTri'' \<mapsto> Num 150)) False) True))"
  by (simp add: getElevatedFactors_def Let_def th_vals toSI_def conv_vals)

section \<open>The what-if delta\<close>

lemma computeWhatIfDelta_store:
  assumes "cells st rawInputs = Some raw" and "rawInputs < next_ref st"
  shows "computeWhatIfDelta st rawInputs isMetric field direction =
    (let step = (case RANGES field of
               None \<Rightarrow> Num 1
             | Some byMode \<Rightarrow>
                 (case byMode (if isMetric then ''si'' else ''us'') of
                    None \<Rightarrow> Num 1
                  | Some rng \<Rightarrow> (if 2 < length rng then rng ! 2 else Num 1)));
         altered = raw(field \<mapsto> get raw field + direction * step * Num 5)
     in ((computeProbability (toSI altered isMetric) - computeProbability (toSI raw isMetric))
           * Num 100,
         st\<lparr> cells := (cells st)(next_ref st \<mapsto> altered), next_ref := Suc (next_ref st) \<rparr>))"
  using assms
  by (simp add: computeWhatIfDelta_def Let_def alloc_def assign_def deref_def)

lemma RANGES_entries:
  assumes "RANGES field = Some byMode"
  shows "\<exists>lo hi stp. byMode (if isMetric then ''si'' else ''us'') = Some [lo, hi, stp]"
  using assms by (auto simp: RANGES_def split: if_splits)

text \<open>
  C8. Let the raw record live in the store at an allocated address, and let the field
  have an entry in the ranges table. Then that entry has a three-element range
  \<open>[min, max, step]\<close> for the active unit mode, and for every direction (in particular
  -1 and +1) \<open>computeWhatIfDelta\<close> returns (altered - baseline) times 100, where baseline
  is \<open>computeProbability (toSI raw isMetric)\<close> and altered is the same for a copy of the
  raw record whose named field is increased by direction times step times 5. After the
  call the store still holds the raw record unchanged at its address.
\<close>

theorem whatIfDelta_configured_field:
  assumes "cells st rawInputs = Some raw" and "rawInputs < next_ref st"
    and "RANGES field = Some byMode"
  shows "\<exists>lo hi step. byMode (if isMetric then ''si'' else ''us'') = Some [lo, hi, step] \<and>
     fst (computeWhatIfDelta st rawInputs isMetric field direction) =
       (computeProbability
          (toSI (raw(field \<mapsto> get raw field + direction * step * Num 5)) isMetric)
          - computeProbability (toSI raw isMetric)) * Num 100 \<and>
     cells (snd (computeWhatIfDelta st rawInputs isMetric field direction)) rawInputs = Some raw"
proof -
  from RANGES_entries [OF assms(3)] obtain lo hi stp
    where m: "byMode (if isMetric then ''si'' else ''us'') = Some [lo, hi, stp]"
    by blast
  show ?thesis
    using assms m by (simp add: computeWhatIfDelta_store [OF assms(1,2)] Let_def)
qed

text \<open>C8 at the calculator's default patient in US units, glucose moved up: the step is
  1 mg/dL, so the altered record has glucose 95 + 5 = 100.\<close>

theorem whatIfDelta_configured_field_witness:
  "fst (computeWhatIfDelta
     \<lparr> cells = [0 \<mapsto> [''age'' \<mapsto> Num 50, ''race'' \<mapsto> Num 0, ''parentHist'' \<mapsto> Num 0,
         ''sbp'' \<mapsto> Num 120, ''height'' \<mapsto> Num 66, ''waist'' \<mapsto> Num 36,
         ''fastGlu'' \<mapsto> Num 95, ''cholHDL'' \<mapsto> Num 50, ''cholTri'' \<mapsto> Num 150]],
       next_ref = 1 \<rparr> 0 False ''fastGlu'' (Num 1))
   = (computeProbability (toSI
        [''age'' \<mapsto> Num 50, ''race'' \<mapsto> Num 0, ''parentHist'' \<mapsto> Num 0,
         ''sbp'' \<mapsto> Num 120, ''height'' \<mapsto> Num 66, ''waist'' \<mapsto> Num 36,
         ''fastGlu'' \<mapsto> Num 100, ''cholHDL'' \<mapsto> Num 50, ''cholTri'' \<mapsto> Num 150] False)
      - computeProbability (toSI
        [''age'' \<mapsto> Num 50, ''race'' \<mapsto> Num 0, ''parentHist'' \<mapsto> Num 0,
         ''sbp'' \<mapsto> Num 120, ''height'' \<mapsto> Num 66, ''waist'' \<mapsto> Num 36,
         ''fastGlu'' \<mapsto> Num 95, ''cholHDL'' \<mapsto> Num 50, ''cholTri'' \<mapsto> Num 150] False))
     * Num 100 \<and>
   cells (snd (computeWhatIfDelta
     \<lparr> cells = [0 \<mapsto> [''age'' \<mapsto> Num 50, ''race'' \<mapsto> Num 0, ''parentHist'' \<mapsto> Num 0,
         ''sbp'' \<mapsto> Num 120, ''height'' \<mapsto> Num 66, ''waist'' \<mapsto> Num 36,
         ''fastGlu'' \<mapsto> Num 95, ''cholHDL'' \<mapsto> Num 50, ''cholTri'' \<mapsto> Num 150]],
       next_ref = 1 \<rparr> 0 False ''fastGlu'' (Num 1))) 0
   = Some [''age'' \<mapsto> Num 50, ''race'' \<mapsto> Num 0, ''parentHist'' \<mapsto> Num 0,
         ''sbp'' \<mapsto> Num 120, ''height'' \<mapsto> Num 66, ''waist'' \<mapsto> Num 36,
         ''fastGlu'' \<mapsto> Num 95, ''cholHDL'' \<mapsto> Num 50, ''cholTri'' \<mapsto> Num 150]"
proof -
  let ?raw = "[''age'' \<mapsto> Num 50, ''race'' \<mapsto> Num 0, ''parentHist'' \<mapsto> Num 0,
         ''sbp'' \<mapsto> Num 120, ''height'' \<mapsto> Num 66, ''waist'' \<mapsto> Num 36,
         ''fastGlu'' \<mapsto> Num 95, ''cholHDL'' \<mapsto> Num 50, ''cholTri'' \<mapsto> Num 150]"
  let ?st = "\<lparr> cells = [0 \<mapsto> ?raw], next_ref = 1 \<rparr>"
  let ?byMode = "map_of [(''us'', [Num 50, Num 300, Num 1]), (''si'', [Num 2.8, Num 16.7, Num 0.1])]"
  have h1: "cells ?st 0 = Some ?raw" by simp
  have h2: "0 < next_ref ?st" by simp
  have h3: "RANGES ''fastGlu'' = Some ?byMode" by (simp add: RANGES_def)
  from whatIfDelta_configured_field [OF h1 h2 h3, of False "Num 1"]
  obtain lo hi step where
    r: "?byMode (if False then ''si'' else ''us'') = Some [lo, hi, step]"
       "fst (computeWhatIfDelta ?st 0 False ''fastGlu'' (Num 1)) =
         (computeProbability
            (toSI (?raw(''fastGlu'' \<mapsto> get ?raw ''fastGlu'' + Num 1 * step * Num 5)) False)
          - computeProbability (toSI ?raw False)) * Num 100"
       "cells (snd (computeWhatIfDelta ?st 0 False ''fastGlu'' (Num 1))) 0 = Some ?raw"
    by blast
  from r(1) have step: "step = Num 1" by simp
  have alt: "?raw(''fastGlu'' \<mapsto> get ?raw ''fastGlu'' + Num 1 * Num 1 * Num 5)
     = [''age'' \<mapsto> Num 50, ''race'' \<mapsto> Num 0, ''parentHist'' \<mapsto> Num 0,
         ''sbp'' \<mapsto> Num 120, ''height'' \<mapsto> Num 66, ''waist'' \<mapsto> Num 36,
         ''fastGlu'' \<mapsto> Num 100, ''cholHDL'' \<mapsto> Num 50, ''cholTri'' \<mapsto> Num 150]"
    by (rule ext) simp
  from r(2,3) show ?thesis
    unfolding step alt by (rule conjI)
qed

text \<open>
  C10. Let the raw record live in the store at an allocated address, and let the field
  have no entry in the ranges table (\<open>race\<close> and \<open>parentHist\<close> have none, nor has any
  unknown name). Then \<open>computeWhatIfDelta\<close> takes the step to be 1: it returns
  (altered - baseline) times 100 where the altered record is a copy of the raw record
  whose named field is set to its raw value plus direction times 5, and that copy is
  what the call leaves at the freshly allocated address. The function has no failing
  branch; for a name that is not a property of the raw record the value read is
  \<open>undefined\<close> and the value stored is \<open>NaN\<close>.
\<close>

theorem whatIfDelta_unconfigured_field:
  assumes "cells st rawInputs = Some raw" and "rawInputs < next_ref st"
    and "RANGES field = None"
  shows "fst (computeWhatIfDelta st rawInputs isMetric field direction) =
       (computeProbability (toSI (raw(field \<mapsto> get raw field + direction * Num 5)) isMetric)
          - computeProbability (toSI raw isMetric)) * Num 100 \<and>
     cells (snd (computeWhatIfDelta st rawInputs isMetric field direction)) (next_ref st)
       = Some (raw(field \<mapsto> get raw field + direction * Num 5)) \<and>
     cells (snd (computeWhatIfDelta st rawInputs isMetric field direction)) rawInputs = Some raw \<and>
     RANGES ''race'' = None \<and> RANGES ''parentHist'' = None"
  using assms by (simp add: computeWhatIfDelta_store [OF assms(1,2)] Let_def RANGES_def)

text \<open>C10 at the population mean record in metric mode, field \<open>race\<close>, direction -1: the
  altered record has race 0.25 - 5 = -4.75.\<close>

theorem whatIfDelta_unconfigured_field_witness:
  "RANGES ''race'' = None \<and>
   cells (snd (computeWhatIfDelta \<lparr> cells = [0 \<mapsto> MEANS], next_ref = 1 \<rparr> 0 True ''race''
      (Num (- 1)))) 1 = Some (MEANS(''race'' \<mapsto> Num (- 4.75))) \<and>
   fst (computeWhatIfDelta \<lparr> cells = [0 \<mapsto> MEANS], next_ref = 1 \<rparr> 0 True ''race'' (Num (- 1)))
     = (computeProbability (MEANS(''race'' \<mapsto> Num (- 4.75))) - computeProbability MEANS)
         * Num 100"
proof -
  let ?st = "\<lparr> cells = [0 \<mapsto> MEANS], next_ref = 1 \<rparr>"
  have h1: "cells ?st 0 = Some MEANS" by simp
  have h2: "0 < next_ref ?st" by simp
  have h3: "RANGES ''race'' = None" by (simp add: RANGES_def)
  have v: "get MEANS ''race'' + Num (- 1) * Num 5 = Num (- 4.75)"
    by (simp add: MEANS_def)
  have t: "toSI x True = x" for x by (simp add: toSI_def)
  from whatIfDelta_unconfigured_field [OF h1 h2 h3, of True "Num (- 1)"] h3
  show ?thesis by (simp only: v t) simp
qed

section \<open>The snapshot buffer\<close>

lemma addSnapshot_drop:
  assumes "length snapshots \<le> 20"
  shows "addSnapshot now r v snapshots =
    drop (Suc (length snapshots) - 20)
      (snapshots @ [\<lparr> timestamp = now, riskPct = r, siVals = v \<rparr>])"
proof (cases "length snapshots = 20")
  case True
  then have "snapshots \<noteq> []" by auto
  then have "tl snapshots = drop 1 snapshots" by (simp add: drop_Suc)
  with True show ?thesis by (simp add: addSnapshot_def MAX_SNAPSHOTS_def Let_def)
next
  case False
  with assms show ?thesis by (simp add: addSnapshot_def MAX_SNAPSHOTS_def Let_def)
qed

lemma length_addSnapshot:
  "length snapshots \<le> 20 \<Longrightarrow> length (addSnapshot now r v snapshots) \<le> 20"
  by (simp add: addSnapshot_drop)

lemma length_timeline_step:
  "length snapshots \<le> 20 \<Longrightarrow> length (timeline_step snapshots op) \<le> 20"
  by (cases op) (simp_all add: length_addSnapshot clear_def)

lemma length_foldl_step:
  "length s \<le> 20 \<Longrightarrow> length (foldl timeline_step s ops) \<le> 20"
  by (induction ops arbitrary: s) (simp_all add: length_timeline_step)

lemma timeline_run_adds:
  "timeline_run (map (\<lambda>(now, r, v). AddSnapshot now r v) xs)
     = map snap (drop (length xs - 20) xs)"
proof (induction xs rule: rev_induct)
  case Nil
  show ?case by (simp add: timeline_run_def)
next
  case (snoc x xs)
  obtain now r v where x: "x = (now, r, v)" by (cases x) auto
  let ?prev = "map snap (drop (length xs - 20) xs)"
  have len: "length ?prev \<le> 20" by simp
  have "timeline_run (map (\<lambda>(now, r, v). AddSnapshot now r v) (xs @ [x]))
      = addSnapshot now r v ?prev"
    using snoc.IH by (simp add: timeline_run_def x)
  also have "\<dots> = drop (Suc (length ?prev) - 20) (?prev @ [snap x])"
    by (simp only: addSnapshot_drop [OF len]) (simp add: snap_def x)
  also have "\<dots> = map snap (drop (length (xs @ [x]) - 20) (xs @ [x]))"
  proof (cases "length xs < 20")
    case True
    then show ?thesis by (simp add: drop_map)
  next
    case False
    then have "Suc (length xs - 20) = length xs - 19" by arith
    with False show ?thesis by (simp add: drop_map)
  qed
  finally show ?case .
qed

text \<open>
  C7. The snapshot buffer is a FIFO buffer bounded at 20. After any run of
  \<open>addSnapshot\<close> and \<open>clear\<close> calls from the initial empty buffer, so after every
  \<open>addSnapshot\<close>, the buffer holds at most 20 snapshots. Appending the snapshots \<open>xs\<close> to
  the empty buffer leaves the last 20 of them (all of them when there are fewer) in
  their order; so appending 25 leaves exactly 20, the oldest 5 evicted and the order of
  the others kept. \<open>clear\<close> empties the buffer.
\<close>

theorem snapshot_buffer_fifo:
  "length (timeline_run ops) \<le> 20 \<and>
   length (timeline_run (ops @ [AddSnapshot now r v])) \<le> 20 \<and>
   timeline_run (map (\<lambda>(now, r, v). AddSnapshot now r v) xs)
     = map snap (drop (length xs - 20) xs) \<and>
   (length xs = 25 \<longrightarrow>
      timeline_run (map (\<lambda>(now, r, v). AddSnapshot now r v) xs) = map snap (drop 5 xs) \<and>
      length (timeline_run (map (\<lambda>(now, r, v). AddSnapshot now r v) xs)) = 20) \<and>
   clear snapshots = [] \<and>
   timeline_run (ops @ [Clear]) = []"
proof (intro conjI impI)
  show "length (timeline_run ops) \<le> 20"
    by (simp add: timeline_run_def length_foldl_step)
  show "length (timeline_run (ops @ [AddSnapshot now r v])) \<le> 20"
    by (simp only: timeline_run_def length_foldl_step list.size(3))
  show "timeline_run (map (\<lambda>(now, r, v). AddSnapshot now r v) xs)
     = map snap (drop (length xs - 20) xs)"
    by (rule timeline_run_adds)
  show "clear snapshots = []" by (simp add: clear_def)
  show "timeline_run (ops @ [Clear]) = []" by (simp add: timeline_run_def clear_def)
next
  assume "length xs = 25"
  then show "timeline_run (map (\<lambda>(now, r, v). AddSnapshot now r v) xs) = map snap (drop 5 xs)"
    by (simp add: timeline_run_adds)
next
  assume "length xs = 25"
  then show "length (timeline_run (map (\<lambda>(now, r, v). AddSnapshot now r v) xs)) = 20"
    by (simp add: timeline_run_adds)
qed

text \<open>C7 at 25 snapshots taken at times 0 to 24 with risks 0 to 24: those of times 5 to
  24 remain, in that order.\<close>

theorem snapshot_buffer_fifo_witness:
  "length (map (\<lambda>i. (i, Num (real i), MEANS)) [0..<25]) = 25 \<and>
   timeline_run (map (\<lambda>(now, r, v). AddSnapshot now r v)
       (map (\<lambda>i. (i, Num (real i), MEANS)) [0..<25]))
     = map (\<lambda>i. \<lparr> timestamp = i, riskPct = Num (real i), siVals = MEANS \<rparr>) [5..<25]"
proof -
  have l: "length (map (\<lambda>i. (i, Num (real i), MEANS)) [0..<25]) = 25" by simp
  have d: "drop 5 (map (\<lambda>i. (i, Num (real i), MEANS)) [0..<25])
      = map (\<lambda>i. (i, Num (real i), MEANS)) [5..<25]"
    by (simp add: drop_map)
  from snapshot_buffer_fifo [of "[]" 0 NaN Map.empty
      "map (\<lambda>i. (i, Num (real i), MEANS)) [0..<25]" "[]"] l
  have "timeline_run (map (\<lambda>(now, r, v). AddSnapshot now r v)
          (map (\<lambda>i. (i, Num (real i), MEANS)) [0..<25]))
     = map snap (drop 5 (map (\<lambda>i. (i, Num (real i), MEANS)) [0..<25]))"
    by blast
  then show ?thesis
    using l by (simp only: d) (simp add: snap_def)
qed

section \<open>The timeline rendering\<close>

lemma W_Num: "W ow = Num (if ow = 48 then 250 else real_of_int ow - 48)"
  by (simp add: W_def)

lemma plotH_Num: "plotH = Num 54"
  by (simp add: plotH_def H_def PAD_def)

lemma foldl_js_max2:
  "list_all (\<lambda>x. js_ge x (Num 0)) xs \<Longrightarrow>
   \<exists>m. foldl js_max2 (Num a) xs = Num m \<and> a \<le> m \<and>
       (\<forall>x \<in> set xs. \<exists>v. x = Num v \<and> v \<le> m) \<and> (m = a \<or> Num m \<in> set xs)"
proof (induction xs arbitrary: a)
  case Nil
  then show ?case by simp
next
  case (Cons x xs)
  from Cons.prems obtain v where x: "x = Num v" and rest: "list_all (\<lambda>x. js_ge x (Num 0)) xs"
    by (auto simp: js_ge_Num)
  from Cons.IH [OF rest, of "max a v"] obtain m where
    m: "foldl js_max2 (Num (max a v)) xs = Num m" "max a v \<le> m"
       "\<forall>x \<in> set xs. \<exists>v. x = Num v \<and> v \<le> m" "m = max a v \<or> Num m \<in> set xs"
    by blast
  have "m = a \<or> Num m \<in> set (x # xs)"
    using m(4) x by (auto simp: max_def split: if_splits)
  with m x show ?case by auto
qed

lemma maxY_Num:
  assumes "risks_ok snapshots"
  shows "\<exists>m. maxY snapshots = Num m \<and> 50 \<le> m \<and>
       (\<forall>s \<in> set snapshots. \<exists>v. riskPct s = Num v \<and> 0 \<le> v \<and> v \<le> m) \<and>
       (m = 50 \<or> Num m \<in> riskPct ` set snapshots)"
proof -
  from assms have ok: "list_all (\<lambda>x. js_ge x (Num 0)) (map riskPct snapshots)"
    by (simp add: risks_ok_def list_all_iff)
  from foldl_js_max2 [OF ok, of 50] obtain m where
    m: "foldl js_max2 (Num 50) (map riskPct snapshots) = Num m" "50 \<le> m"
       "\<forall>x \<in> set (map riskPct snapshots). \<exists>v. x = Num v \<and> v \<le> m"
       "m = 50 \<or> Num m \<in> set (map riskPct snapshots)"
    by blast
  have "\<forall>s \<in> set snapshots. \<exists>v. riskPct s = Num v \<and> 0 \<le> v \<and> v \<le> m"
  proof
    fix s assume s: "s \<in> set snapshots"
    with assms obtain v where v: "riskPct s = Num v" "0 \<le> v"
      by (auto simp: risks_ok_def list_all_iff js_ge_Num)
    from m(3) s v show "\<exists>v. riskPct s = Num v \<and> 0 \<le> v \<and> v \<le> m" by force
  qed
  with m show ?thesis by (auto simp: maxY_def Math_max_def)
qed

lemma yScale_Num:
  assumes "maxY snapshots = Num m" and "50 \<le> m"
  shows "yScale snapshots (Num v) = Num (64 - v / m * 54)"
  using assms by (simp add: yScale_def plotH_Num PAD_def)

lemma y_in_plot:
  assumes "0 \<le> v" and "v \<le> m" and "50 \<le> (m::real)"
  shows "10 \<le> 64 - v / m * 54 \<and> 64 - v / m * 54 \<le> 64"
proof -
  have a: "0 \<le> v / m" and b: "v / m \<le> 1" using assms by simp_all
  from a have "0 \<le> v / m * 54" by (rule mult_nonneg_nonneg) simp
  moreover from b have "v / m * 54 \<le> 1 * 54" by (rule mult_right_mono) simp
  ultimately show ?thesis by linarith
qed

lemma render_nonempty:
  assumes "snapshots \<noteq> []"
  shows "render (Some ow) snapshots = Some (Svg (W ow) H
    ([Line (left_pad PAD) (yScale snapshots (Num 10)) (W ow - right_pad PAD)
        (yScale snapshots (Num 10)) ''timeline-threshold'',
      Text (W ow - right_pad PAD + Num 2) (yScale snapshots (Num 10) + Num 3) ''timeline-label''
        None (Words ''10%'')] @
     (if length snapshots > 1
      then [Path ([MoveTo (xScale ow snapshots 0) (yScale snapshots (riskPct (snapshots ! 0)))] @
               map (\<lambda>(i, s). LineTo (xScale ow snapshots i) (yScale snapshots (riskPct s)))
                 (enumerate 0 snapshots) @
               [LineTo (xScale ow snapshots (length snapshots - 1)) (yScale snapshots (Num 0)),
                LineTo (xScale ow snapshots 0) (yScale snapshots (Num 0)), ClosePath])
              ''timeline-area'',
            Path ([MoveTo (xScale ow snapshots 0) (yScale snapshots (riskPct (snapshots ! 0)))] @
               map (\<lambda>(i, s). LineTo (xScale ow snapshots i) (yScale snapshots (riskPct s)))
                 (enumerate 0 snapshots)) ''timeline-line'']
      else []) @
     concat (map (dot ow snapshots) (enumerate 0 snapshots))))"
  using assms by (simp add: render_def Let_def)

lemma circles_of_dots:
  "filter is_circle (concat (map (dot ow snapshots) xs)) =
   map (\<lambda>(i, s). Circle (xScale ow snapshots i) (yScale snapshots (riskPct s)) (Num 4)
          ''timeline-dot'' (i + 1) (riskPct s)) xs"
  by (induction xs) (auto simp: dot_def Let_def)

lemma xScale_single: "xScale ow [s] 0 = W ow / Num 2"
  by (simp add: xScale_def plotW_def PAD_def W_Num diff_divide_distrib)

lemma yScale_law: "yScale snapshots y = Num 10 + Num 54 - (y / maxY snapshots) * Num 54"
  by (simp add: yScale_def plotH_Num PAD_def)

lemma xScale_Num:
  assumes "1 < length snapshots"
  shows "xScale ow snapshots i =
    Num (12 + real i / real (length snapshots - 1)
           * ((if ow = 48 then 250 else real_of_int ow - 48) - 24))"
  using assms by (simp add: xScale_def plotW_def PAD_def W_Num)

text \<open>
  C9. Given the container, \<open>render\<close> shows the empty-state paragraph when there is no
  snapshot. With exactly one snapshot it draws the threshold line and its label, one dot
  whose horizontal position is the middle of the drawing (\<open>W / 2\<close>) with its index
  label, and no path: neither a connecting line nor an area. The vertical scale is
  linear over \<open>[0, maxY]\<close>: \<open>yScale y = 10 + 54 - (y / maxY) * 54\<close> for every value. With
  at least one snapshot whose risk percentages are numbers and not negative, \<open>maxY\<close> is
  the maximum of 50 and the observed risks, so a value \<open>v\<close> is drawn at height
  \<open>64 - v / maxY * 54\<close>, the value 0 at the bottom of the plot (64) and \<open>maxY\<close> at its
  top (10); the first element drawn is the reference line at 10 percent, at height
  \<open>64 - 10 / maxY * 54\<close>, which lies in the plot range from 10 to 64; the dots drawn are
  exactly one per snapshot, the dot of a snapshot of risk \<open>v\<close> at height
  \<open>64 - v / maxY * 54\<close>, which lies in the plot range; and with more than one snapshot
  the horizontal scale is linear over the indices, from 12 to \<open>W - 12\<close>.
\<close>

theorem timeline_render_scale:
  "render (Some ow) [] = Some (Paragraph ''timeline-empty''
     (''No snapshots yet. Click '' @ [CHR 0x22] @ ''Save Snapshot'' @ [CHR 0x22]
        @ '' to track changes over time.'')) \<and>
   render (Some ow) [s] = Some (Svg (W ow) H
     [Line (Num 12) (yScale [s] (Num 10)) (W ow - Num 12) (yScale [s] (Num 10))
        ''timeline-threshold'',
      Text (W ow - Num 12 + Num 2) (yScale [s] (Num 10) + Num 3) ''timeline-label'' None
        (Words ''10%''),
      Circle (W ow / Num 2) (yScale [s] (riskPct s)) (Num 4) ''timeline-dot'' 1 (riskPct s),
      Text (W ow / Num 2) (Num 78) ''timeline-label'' (Some ''middle'') (Index 1)]) \<and>
   yScale snapshots y = Num 10 + Num 54 - (y / maxY snapshots) * Num 54 \<and>
   (snapshots \<noteq> [] \<longrightarrow> risks_ok snapshots \<longrightarrow>
     (\<exists>m rest.
       maxY snapshots = Num m \<and> 50 \<le> m \<and> (m = 50 \<or> Num m \<in> riskPct ` set snapshots) \<and>
       (\<forall>v. yScale snapshots (Num v) = Num (64 - v / m * 54)) \<and>
       yScale snapshots (Num 0) = Num 64 \<and> yScale snapshots (Num m) = Num 10 \<and>
       (\<forall>s \<in> set snapshots. \<exists>v. riskPct s = Num v \<and> 0 \<le> v \<and> v \<le> m \<and>
          yScale snapshots (riskPct s) = Num (64 - v / m * 54) \<and>
          10 \<le> 64 - v / m * 54 \<and> 64 - v / m * 54 \<le> 64) \<and>
       render (Some ow) snapshots = Some (Svg (W ow) H
         (Line (Num 12) (Num (64 - 10 / m * 54)) (W ow - Num 12) (Num (64 - 10 / m * 54))
            ''timeline-threshold'' # rest)) \<and>
       10 \<le> 64 - 10 / m * 54 \<and> 64 - 10 / m * 54 \<le> 64 \<and>
       filter is_circle rest =
         map (\<lambda>(i, s). Circle (xScale ow snapshots i) (yScale snapshots (riskPct s)) (Num 4)
                ''timeline-dot'' (i + 1) (riskPct s)) (enumerate 0 snapshots) \<and>
       (1 < length snapshots \<longrightarrow>
          (\<forall>i. xScale ow snapshots i =
             Num (12 + real i / real (length snapshots - 1)
                    * ((if ow = 48 then 250 else real_of_int ow - 48) - 24))))))"
proof (intro conjI impI)
  show "render (Some ow) [] = Some (Paragraph ''timeline-empty''
     (''No snapshots yet. Click '' @ [CHR 0x22] @ ''Save Snapshot'' @ [CHR 0x22]
        @ '' to track changes over time.''))"
    by (simp add: render_def)
next
  have "[s] \<noteq> []" by simp
  from render_nonempty [OF this, of ow]
  show "render (Some ow) [s] = Some (Svg (W ow) H
     [Line (Num 12) (yScale [s] (Num 10)) (W ow - Num 12) (yScale [s] (Num 10))
        ''timeline-threshold'',
      Text (W ow - Num 12 + Num 2) (yScale [s] (Num 10) + Num 3) ''timeline-label'' None
        (Words ''10%''),
      Circle (W ow / Num 2) (yScale [s] (riskPct s)) (Num 4) ''timeline-dot'' 1 (riskPct s),
      Text (W ow / Num 2) (Num 78) ''timeline-label'' (Some ''middle'') (Index 1)])"
    by (simp add: dot_def Let_def xScale_single PAD_def H_def)
next
  show "yScale snapshots y = Num 10 + Num 54 - (y / maxY snapshots) * Num 54"
    by (rule yScale_law)
next
  assume ne: "snapshots \<noteq> []" and ok: "risks_ok snapshots"
  from maxY_Num [OF ok] obtain m where
    m: "maxY snapshots = Num m" "50 \<le> m"
       "\<forall>s \<in> set snapshots. \<exists>v. riskPct s = Num v \<and> 0 \<le> v \<and> v \<le> m"
       "m = 50 \<or> Num m \<in> riskPct ` set snapshots"
    by blast
  let ?ty = "64 - 10 / m * 54"
  have law: "\<forall>v. yScale snapshots (Num v) = Num (64 - v / m * 54)"
    by (simp add: yScale_Num [OF m(1,2)])
  have ends: "yScale snapshots (Num 0) = Num 64" "yScale snapshots (Num m) = Num 10"
    using m(2) by (simp_all add: yScale_Num [OF m(1,2)])
  have ty_in: "10 \<le> ?ty" "?ty \<le> 64"
    using y_in_plot [of 10 m] m(2) by simp_all
  have pts: "\<forall>s \<in> set snapshots. \<exists>v. riskPct s = Num v \<and> 0 \<le> v \<and> v \<le> m \<and>
          yScale snapshots (riskPct s) = Num (64 - v / m * 54) \<and>
          10 \<le> 64 - v / m * 54 \<and> 64 - v / m * 54 \<le> 64"
  proof
    fix s assume "s \<in> set snapshots"
    with m(3) obtain v where v: "riskPct s = Num v" "0 \<le> v" "v \<le> m" by blast
    from y_in_plot [OF v(2,3) m(2)] yScale_Num [OF m(1,2), of v] v
    show "\<exists>v. riskPct s = Num v \<and> 0 \<le> v \<and> v \<le> m \<and>
          yScale snapshots (riskPct s) = Num (64 - v / m * 54) \<and>
          10 \<le> 64 - v / m * 54 \<and> 64 - v / m * 54 \<le> 64"
      by simp
  qed
  let ?rest = "[Text (W ow - right_pad PAD + Num 2) (yScale snapshots (Num 10) + Num 3)
        ''timeline-label'' None (Words ''10%'')] @
     (if length snapshots > 1
      then [Path ([MoveTo (xScale ow snapshots 0) (yScale snapshots (riskPct (snapshots ! 0)))] @
               map (\<lambda>(i, s). LineTo (xScale ow snapshots i) (yScale snapshots (riskPct s)))
                 (enumerate 0 snapshots) @
               [LineTo (xScale ow snapshots (length snapshots - 1)) (yScale snapshots (Num 0)),
                LineTo (xScale ow snapshots 0) (yScale snapshots (Num 0)), ClosePath])
              ''timeline-area'',
            Path ([MoveTo (xScale ow snapshots 0) (yScale snapshots (riskPct (snapshots ! 0)))] @
               map (\<lambda>(i, s). LineTo (xScale ow snapshots i) (yScale snapshots (riskPct s)))
                 (enumerate 0 snapshots)) ''timeline-line'']
      else []) @
     concat (map (dot ow snapshots) (enumerate 0 snapshots))"
  have ty: "yScale snapshots (Num 10) = Num ?ty"
    by (rule yScale_Num [OF m(1,2)])
  have r: "render (Some ow) snapshots = Some (Svg (W ow) H
       (Line (Num 12) (Num ?ty) (W ow - Num 12) (Num ?ty) ''timeline-threshold'' # ?rest))"
    by (simp only: render_nonempty [OF ne] ty) (simp add: PAD_def)
  have c: "filter is_circle ?rest =
       map (\<lambda>(i, s). Circle (xScale ow snapshots i) (yScale snapshots (riskPct s)) (Num 4)
              ''timeline-dot'' (i + 1) (riskPct s)) (enumerate 0 snapshots)"
    by (simp add: circles_of_dots)
  have x: "1 < length snapshots \<longrightarrow>
          (\<forall>i. xScale ow snapshots i =
             Num (12 + real i / real (length snapshots - 1)
                    * ((if ow = 48 then 250 else real_of_int ow - 48) - 24)))"
    using xScale_Num by blast
  from m(1,2,4) law ends pts r ty_in c x
  show "\<exists>m rest.
       maxY snapshots = Num m \<and> 50 \<le> m \<and> (m = 50 \<or> Num m \<in> riskPct ` set snapshots) \<and>
       (\<forall>v. yScale snapshots (Num v) = Num (64 - v / m * 54)) \<and>
       yScale snapshots (Num 0) = Num 64 \<and> yScale snapshots (Num m) = Num 10 \<and>
       (\<forall>s \<in> set snapshots. \<exists>v. riskPct s = Num v \<and> 0 \<le> v \<and> v \<le> m \<and>
          yScale snapshots (riskPct s) = Num (64 - v / m * 54) \<and>
          10 \<le> 64 - v / m * 54 \<and> 64 - v / m * 54 \<le> 64) \<and>
       render (Some ow) snapshots = Some (Svg (W ow) H
         (Line (Num 12) (Num (64 - 10 / m * 54)) (W ow - Num 12) (Num (64 - 10 / m * 54))
            ''timeline-threshold'' # rest)) \<and>
       10 \<le> 64 - 10 / m * 54 \<and> 64 - 10 / m * 54 \<le> 64 \<and>
       filter is_circle rest =
         map (\<lambda>(i, s). Circle (xScale ow snapshots i) (yScale snapshots (riskPct s)) (Num 4)
                ''timeline-dot'' (i + 1) (riskPct s)) (enumerate 0 snapshots) \<and>
       (1 < length snapshots \<longrightarrow>
          (\<forall>i. xScale ow snapshots i =
             Num (12 + real i / real (length snapshots - 1)
                    * ((if ow = 48 then 250 else real_of_int ow - 48) - 24))))"
    by blast
qed

text \<open>C9 at a container of width 348 (a drawing 300 wide) holding two snapshots with risks
  20 and 80: the scale reaches 80, the value 40 is drawn at height 37, the reference line
  is at height 57.25, and the dots are at (12, 50.5) and (288, 10).\<close>

theorem timeline_render_scale_witness:
  "[\<lparr> timestamp = 100, riskPct = Num 20, siVals = MEANS \<rparr>,
    \<lparr> timestamp = 200, riskPct = Num 80, siVals = MEANS \<rparr>] \<noteq> [] \<and>
   risks_ok [\<lparr> timestamp = 100, riskPct = Num 20, siVals = MEANS \<rparr>,
             \<lparr> timestamp = 200, riskPct = Num 80, siVals = MEANS \<rparr>] \<and>
   maxY [\<lparr> timestamp = 100, riskPct = Num 20, siVals = MEANS \<rparr>,
         \<lparr> timestamp = 200, riskPct = Num 80, siVals = MEANS \<rparr>] = Num 80 \<and>
   yScale [\<lparr> timestamp = 100, riskPct = Num 20, siVals = MEANS \<rparr>,
           \<lparr> timestamp = 200, riskPct = Num 80, siVals = MEANS \<rparr>] (Num 40) = Num 37 \<and>
   (\<exists>rest. render (Some 348)
        [\<lparr> timestamp = 100, riskPct = Num 20, siVals = MEANS \<rparr>,
         \<lparr> timestamp = 200, riskPct = Num 80, siVals = MEANS \<rparr>]
      = Some (Svg (Num 300) (Num 80)
          (Line (Num 12) (Num 57.25) (Num 288) (Num 57.25) ''timeline-threshold'' # rest)) \<and>
      filter is_circle rest =
        [Circle (Num 12) (Num 50.5) (Num 4) ''timeline-dot'' 1 (Num 20),
         Circle (Num 288) (Num 10) (Num 4) ''timeline-dot'' 2 (Num 80)])"
proof -
  let ?ss = "[\<lparr> timestamp = 100, riskPct = Num 20, siVals = MEANS \<rparr>,
              \<lparr> timestamp = 200, riskPct = Num 80, siVals = MEANS \<rparr>]"
  have ne: "?ss \<noteq> []" by simp
  have ok: "risks_ok ?ss" by (simp add: risks_ok_def)
  have my: "maxY ?ss = Num 80" by (simp add: maxY_def Math_max_def)
  have w: "W 348 = Num 300" by (simp add: W_def)
  have len: "1 < length ?ss" by simp
  from timeline_render_scale [of 348 _ ?ss] ne ok
  obtain m rest where
    r: "maxY ?ss = Num m"
       "\<forall>v. yScale ?ss (Num v) = Num (64 - v / m * 54)"
       "render (Some 348) ?ss = Some (Svg (W 348) H
         (Line (Num 12) (Num (64 - 10 / m * 54)) (W 348 - Num 12) (Num (64 - 10 / m * 54))
            ''timeline-threshold'' # rest))"
       "filter is_circle rest =
         map (\<lambda>(i, s). Circle (xScale 348 ?ss i) (yScale ?ss (riskPct s)) (Num 4)
                ''timeline-dot'' (i + 1) (riskPct s)) (enumerate 0 ?ss)"
       "1 < length ?ss \<longrightarrow>
          (\<forall>i. xScale 348 ?ss i =
             Num (12 + real i / real (length ?ss - 1)
                    * ((if (348::int) = 48 then 250 else real_of_int 348 - 48) - 24)))"
    by blast
  from r(1) my have m: "m = 80" by simp
  from r(2) have y: "yScale ?ss (Num v) = Num (64 - v / 80 * 54)" for v
    by (simp add: m)
  from r(5) len have x: "xScale 348 ?ss i = Num (12 + real i / real (length ?ss - 1)
                    * ((if (348::int) = 48 then 250 else real_of_int 348 - 48) - 24))" for i
    by blast
  have xs: "xScale 348 ?ss 0 = Num 12" "xScale 348 ?ss (Suc 0) = Num 288"
    by (simp_all add: x)
  from r(3) have r1: "render (Some 348) ?ss = Some (Svg (Num 300) (Num 80)
          (Line (Num 12) (Num 57.25) (Num 288) (Num 57.25) ''timeline-threshold'' # rest))"
    by (simp add: m w H_def)
  from r(4) have r3: "filter is_circle rest =
        [Circle (Num 12) (Num 50.5) (Num 4) ''timeline-dot'' 1 (Num 20),
         Circle (Num 288) (Num 10) (Num 4) ''timeline-dot'' 2 (Num 80)]"
    by (simp add: xs y)
  have y30: "yScale ?ss (Num 40) = Num 37" by (simp add: y)
  from ne ok my y30 r1 r3 show ?thesis by blast
qed

end
